theory Spec2Isabelle
  imports Complex_Main
begin

section \<open>Floating-point values of the dashboard\<close>

text \<open>
  The script computes with Python and NumPy floats. A value is modelled as an exact real
  number or one of the three special values of IEEE 754: the two infinities and NaN, the
  "undefined" entry of a pandas column. Rounding is not modelled, and zero carries no sign:
  a zero divisor is taken as the positive zero.
\<close>

datatype pyfloat = Fin real | PInf | NInf | NaN

fun fneg :: "pyfloat \<Rightarrow> pyfloat" where
  "fneg (Fin x) = Fin (- x)"
| "fneg PInf = NInf"
| "fneg NInf = PInf"
| "fneg NaN = NaN"

fun fadd :: "pyfloat \<Rightarrow> pyfloat \<Rightarrow> pyfloat" where
  "fadd NaN _ = NaN"
| "fadd _ NaN = NaN"
| "fadd (Fin x) (Fin y) = Fin (x + y)"
| "fadd (Fin x) PInf = PInf"
| "fadd (Fin x) NInf = NInf"
| "fadd PInf NInf = NaN"
| "fadd NInf PInf = NaN"
| "fadd PInf _ = PInf"
| "fadd NInf _ = NInf"

definition fsub :: "pyfloat \<Rightarrow> pyfloat \<Rightarrow> pyfloat" where
  "fsub a b = fadd a (fneg b)"

text \<open>The sign of a value, where it has one: NaN and zero have none.\<close>

fun fsign :: "pyfloat \<Rightarrow> int" where
  "fsign (Fin x) = (if 0 < x then 1 else if x < 0 then - 1 else 0)"
| "fsign PInf = 1"
| "fsign NInf = - 1"
| "fsign NaN = 0"

definition inf_of_sign :: "int \<Rightarrow> pyfloat" where
  "inf_of_sign s = (if 0 < s then PInf else if s < 0 then NInf else NaN)"


text \<open>
  NumPy division: no exception is raised. A finite value over an infinity is zero, a
  nonzero value over zero is an infinity, and zero over zero as well as an infinity over
  an infinity is NaN.
\<close>

fun fdiv :: "pyfloat \<Rightarrow> pyfloat \<Rightarrow> pyfloat" where
  "fdiv NaN _ = NaN"
| "fdiv _ NaN = NaN"
| "fdiv (Fin x) (Fin y) = (if y \<noteq> 0 then Fin (x / y) else inf_of_sign (fsign (Fin x)))"
| "fdiv (Fin x) _ = Fin 0"
| "fdiv a (Fin y) = inf_of_sign (fsign a * (if y < 0 then - 1 else 1))"
| "fdiv _ _ = NaN"

text \<open>Comparisons: every comparison with NaN is false.\<close>

fun flt :: "pyfloat \<Rightarrow> pyfloat \<Rightarrow> bool" where
  "flt NaN _ = False"
| "flt _ NaN = False"
| "flt (Fin x) (Fin y) = (x < y)"
| "flt PInf _ = False"
| "flt _ NInf = False"
| "flt _ _ = True"

definition fgt :: "pyfloat \<Rightarrow> pyfloat \<Rightarrow> bool" where
  "fgt a b = flt b a"


section \<open>Rolling and exponentially weighted means\<close>

text \<open>
  \<^verbatim>\<open>Series.rolling(w).mean()\<close>: the series is walked from its first entry; at each
  entry the window is the last \<open>w\<close> entries seen so far, and the mean is taken when the
  window holds at least \<open>w\<close> observations that are not NaN (\<open>min_periods\<close> is the
  window size), otherwise the entry is NaN. An entry of the input series is \<open>None\<close> where
  the column holds NaN.
\<close>

definition window_mean :: "nat \<Rightarrow> real option list \<Rightarrow> pyfloat" where
  "window_mean w win =
     (let obs = List.map_filter id win
      in if w \<le> length obs \<and> 0 < length obs then Fin (sum_list obs / real (length obs))
         else NaN)"

fun rolling_from :: "nat \<Rightarrow> real option list \<Rightarrow> real option list \<Rightarrow> pyfloat list" where
  "rolling_from w seen [] = []"
| "rolling_from w seen (x # xs) =
     window_mean w (drop (Suc (length seen) - w) (seen @ [x])) # rolling_from w (seen @ [x]) xs"

definition rolling_mean :: "nat \<Rightarrow> real option list \<Rightarrow> pyfloat list" where
  "rolling_mean w xs = rolling_from w [] xs"

text \<open>
  \<^verbatim>\<open>Series.ewm(span=s).mean()\<close> with pandas' defaults (\<open>adjust=True\<close>): the weighted
  sum of all prices so far, the weight of a price decaying by \<open>1 - \<alpha>\<close> per step,
  over the sum of the weights; \<open>\<alpha> = 2 / (s + 1)\<close>.
\<close>

fun ewm_from :: "real \<Rightarrow> real \<Rightarrow> real \<Rightarrow> real list \<Rightarrow> pyfloat list" where
  "ewm_from a num den [] = []"
| "ewm_from a num den (x # xs) =
     Fin ((x + (1 - a) * num) / (1 + (1 - a) * den))
       # ewm_from a (x + (1 - a) * num) (1 + (1 - a) * den) xs"

definition ewm_mean :: "nat \<Rightarrow> real list \<Rightarrow> pyfloat list" where
  "ewm_mean s xs = ewm_from (2 / (real s + 1)) 0 0 xs"

text \<open>\<^verbatim>\<open>Series.diff()\<close>: the first entry is NaN, every other one the step from its predecessor.\<close>

definition diff :: "real list \<Rightarrow> real option list" where
  "diff xs = (case xs of [] \<Rightarrow> [] | _ # t \<Rightarrow> None # map (\<lambda>(a, b). Some (b - a)) (zip xs t))"

definition clip_lower :: "real \<Rightarrow> real option list \<Rightarrow> real option list" where
  "clip_lower l xs = map (map_option (max l)) xs"

definition clip_upper :: "real \<Rightarrow> real option list \<Rightarrow> real option list" where
  "clip_upper u xs = map (map_option (min u)) xs"

section \<open>The data frame and the indicator engine\<close>

text \<open>
  The frame \<^verbatim>\<open>get_chart\<close> builds has the columns \<^verbatim>\<open>time\<close> and \<^verbatim>\<open>price\<close>; the prices
  are the finite numbers of the provider's reply. The four indicator columns are absent
  until \<^verbatim>\<open>add_indicators\<close> assigns them.
\<close>

record frame =
  time :: "int list"
  price :: "real list"
  SMA20 :: "pyfloat list option"
  SMA50 :: "pyfloat list option"
  EMA20 :: "pyfloat list option"
  RSI :: "pyfloat list option"

text \<open>
  The frame \<^verbatim>\<open>get_chart\<close> returns for the pairs of timestamp and price of the reply.
\<close>

definition chart :: "(int \<times> real) list \<Rightarrow> frame" where
  "chart prices = \<lparr>time = map fst prices, price = map snd prices,
     SMA20 = None, SMA50 = None, EMA20 = None, RSI = None\<rparr>"

text \<open>The local series \<^verbatim>\<open>gain\<close>, \<^verbatim>\<open>loss\<close> and \<^verbatim>\<open>rs\<close> of \<^verbatim>\<open>add_indicators\<close>, and the RSI column.\<close>

definition gain_series :: "real list \<Rightarrow> pyfloat list" where
  "gain_series ps = rolling_mean 14 (clip_lower 0 (diff ps))"

definition loss_series :: "real list \<Rightarrow> pyfloat list" where
  "loss_series ps = map fneg (rolling_mean 14 (clip_upper 0 (diff ps)))"

definition rs_series :: "real list \<Rightarrow> pyfloat list" where
  "rs_series ps = map (\<lambda>(g, l). fdiv g l) (zip (gain_series ps) (loss_series ps))"

definition rsi_of_rs :: "pyfloat \<Rightarrow> pyfloat" where
  "rsi_of_rs rs = fsub (Fin 100) (fdiv (Fin 100) (fadd (Fin 1) rs))"

definition rsi_series :: "real list \<Rightarrow> pyfloat list" where
  "rsi_series ps = map rsi_of_rs (rs_series ps)"

definition sma :: "nat \<Rightarrow> real list \<Rightarrow> pyfloat list" where
  "sma w ps = rolling_mean w (map Some ps)"

text \<open>The frame after the four column assignments of \<^verbatim>\<open>add_indicators\<close>.\<close>

definition assign_indicators :: "frame \<Rightarrow> frame" where
  "assign_indicators df =
     df\<lparr>SMA20 := Some (sma 20 (price df)),
        SMA50 := Some (sma 50 (price df)),
        EMA20 := Some (ewm_mean 20 (price df)),
        RSI := Some (rsi_series (price df))\<rparr>"

text \<open>
  \<^verbatim>\<open>add_indicators(df)\<close> assigns the columns on the caller's frame object and returns
  that same object: the frames live in a store, and the function takes and returns a
  reference.
\<close>

type_synonym ref = nat
type_synonym store = "ref \<Rightarrow> frame"

definition add_indicators :: "ref \<Rightarrow> store \<Rightarrow> ref \<times> store" where
  "add_indicators df s = (df, s(df := assign_indicators (s df)))"

section \<open>Errors and column access\<close>

datatype error = IndexError | KeyError | ZeroDivisionError | JSONDecodeError | OSError

definition err_bind :: "error + 'a \<Rightarrow> ('a \<Rightarrow> error + 'b) \<Rightarrow> error + 'b" where
  "err_bind m f = (case m of Inl e \<Rightarrow> Inl e | Inr x \<Rightarrow> f x)"

text \<open>\<^verbatim>\<open>df[name]\<close> raises KeyError for an absent column.\<close>

definition column :: "'a option \<Rightarrow> error + 'a" where
  "column c = (case c of None \<Rightarrow> Inl KeyError | Some xs \<Rightarrow> Inr xs)"

text \<open>\<^verbatim>\<open>.iloc[i]\<close>: a negative position counts from the end; out of range raises IndexError.\<close>

definition iloc :: "'a list \<Rightarrow> int \<Rightarrow> error + 'a" where
  "iloc xs i =
     (if 0 \<le> i then
        (if nat i < length xs then Inr (xs ! nat i) else Inl IndexError)
      else
        (if nat (- i) \<le> length xs then Inr (xs ! (length xs - nat (- i))) else Inl IndexError))"

definition cell :: "pyfloat list option \<Rightarrow> int \<Rightarrow> error + pyfloat" where
  "cell c i = err_bind (column c) (\<lambda>xs. iloc xs i)"

section \<open>The signal engine\<close>

definition classify :: "int \<Rightarrow> string \<times> int" where
  "classify score =
     (if 2 \<le> score then (''BUY'', score)
      else if score \<le> - 1 then (''SELL'', score)
      else (''HOLD'', score))"

definition ai_signal :: "frame \<Rightarrow> error + string \<times> int" where
  "ai_signal df =
     err_bind (cell (SMA20 df) (- 1)) (\<lambda>s20.
     err_bind (cell (SMA50 df) (- 1)) (\<lambda>s50.
     let score1 = (if fgt s20 s50 then 0 + 1 else (0::int)) in
     err_bind (iloc (price df) (- 1)) (\<lambda>p.
     err_bind (cell (EMA20 df) (- 1)) (\<lambda>e.
     let score2 = (if fgt (Fin p) e then score1 + 1 else score1) in
     err_bind (cell (RSI df) (- 1)) (\<lambda>r.
     let score3 = (if flt r (Fin 30) then score2 + 1 else score2);
         score4 = (if fgt r (Fin 70) then score3 - 1 else score3)
     in Inr (classify score4))))))"

section \<open>The strategy backtest\<close>





section \<open>The risk calculator\<close>

text \<open>Python's \<^verbatim>\<open>round(x, 2)\<close>: to the nearest hundredth, a tie to the even one.\<close>

definition round2 :: "real \<Rightarrow> real" where
  "round2 x =
     (let y = x * 100; f = \<lfloor>y\<rfloor>; d = y - of_int f
      in of_int (if d < 1 / 2 then f else if 1 / 2 < d then f + 1
                 else if even f then f else f + 1) / 100)"

text \<open>
  The three inputs are Python floats, and the quotient of two Python floats raises
  ZeroDivisionError on a zero divisor. The result is what the page writes: nothing
  (\<open>None\<close>) when the computation is skipped.
\<close>

definition risk_reward :: "real \<Rightarrow> real \<Rightarrow> real \<Rightarrow> error + real option" where
  "risk_reward entry sl tp =
     (if 0 < entry \<and> 0 < sl \<and> 0 < tp then
        (let risk = entry - sl; reward = tp - entry
         in if risk = 0 then Inl ZeroDivisionError else Inr (Some (round2 (reward / risk))))
      else Inr None)"

section \<open>The trade log\<close>

record trade =
  trade_coin :: string
  trade_type :: string
  trade_amount :: real
  trade_price :: real

text \<open>
  The state of \<^verbatim>\<open>trades.json\<close>: absent, holding the complete JSON dump of a list of
  trades, or torn: opened for writing, which empties it, with the dump stopped before its
  end. A torn file holds a proper prefix of a dump, which is not a JSON document.
\<close>

datatype trades_file = NoFile | Dump "trade list" | Torn

definition load_trades :: "trades_file \<Rightarrow> error + trade list" where
  "load_trades f = (case f of NoFile \<Rightarrow> Inr [] | Dump ts \<Rightarrow> Inr ts | Torn \<Rightarrow> Inl JSONDecodeError)"

text \<open>
  What the disk does during a save: nothing wrong, a refusal to open the file for writing,
  or a failure of a write after the file has been opened.
\<close>

datatype fault = NoFault | OpenFails | WriteFails

text \<open>The exception \<^verbatim>\<open>save_trades\<close> raises, if any, and the file it leaves.\<close>

definition save_trades :: "fault \<Rightarrow> trade list \<Rightarrow> trades_file \<Rightarrow> error option \<times> trades_file" where
  "save_trades d trades f =
     (case d of
        OpenFails \<Rightarrow> (Some OSError, f)
      | WriteFails \<Rightarrow> (Some OSError, Torn)
      | NoFault \<Rightarrow> (None, Dump trades))"

text \<open>The handler of the button \<^verbatim>\<open>Trade speichern\<close>.\<close>

definition trade_speichern :: "fault \<Rightarrow> trade \<Rightarrow> trades_file \<Rightarrow> error option \<times> trades_file" where
  "trade_speichern d t f =
     (case load_trades f of
        Inl e \<Rightarrow> (Some e, f)
      | Inr trades \<Rightarrow> save_trades d (trades @ [t]) f)"

section \<open>Auxiliary notions of the proofs\<close>

text \<open>The steps of a price series, without the leading NaN of \<^verbatim>\<open>diff\<close>.\<close>

definition deltas :: "real list \<Rightarrow> real list" where
  "deltas ps = map (\<lambda>(a, b). b - a) (zip ps (tl ps))"


section \<open>Rolling means, entry by entry\<close>

lemma length_rolling_from: "length (rolling_from w seen xs) = length xs"
  by (induction xs arbitrary: seen) simp_all

lemma length_rolling_mean: "length (rolling_mean w xs) = length xs"
  by (simp add: rolling_mean_def length_rolling_from)

lemma nth_rolling_from:
  "i < length xs \<Longrightarrow>
   rolling_from w seen xs ! i =
     window_mean w (drop (Suc (length seen + i) - w) (take (Suc (length seen + i)) (seen @ xs)))"
proof (induction xs arbitrary: seen i)
  case Nil
  then show ?case by simp
next
  case (Cons x xs)
  show ?case
  proof (cases i)
    case 0
    then show ?thesis by simp
  next
    case (Suc k)
    with Cons.prems have "k < length xs" by simp
    from Cons.IH [OF this, of "seen @ [x]"] Suc show ?thesis by simp
  qed
qed

lemma nth_rolling_mean:
  "i < length xs \<Longrightarrow>
   rolling_mean w xs ! i = window_mean w (drop (Suc i - w) (take (Suc i) xs))"
  by (simp add: rolling_mean_def nth_rolling_from)

lemma map_filter_id_Some: "List.map_filter id (map Some xs) = xs"
  by (induction xs) (simp_all add: List.map_filter_simps)

lemma window_mean_Some:
  "window_mean w (map Some xs) =
     (if w \<le> length xs \<and> 0 < length xs then Fin (sum_list xs / real (length xs)) else NaN)"
  by (simp add: window_mean_def map_filter_id_Some)







lemma length_diff: "length (diff ps) = length ps"
  by (cases ps) (simp_all add: diff_def)

lemma diff_deltas: "ps \<noteq> [] \<Longrightarrow> diff ps = None # map Some (deltas ps)"
  by (cases ps) (simp_all add: diff_def deltas_def comp_def case_prod_unfold)

lemma length_deltas: "length (deltas ps) = length ps - 1"
  by (simp add: deltas_def)

lemma map_filter_id_None: "List.map_filter id (None # xs) = List.map_filter id xs"
  by (simp add: List.map_filter_simps)

lemma window_mean_None_short:
  "length xs < w \<Longrightarrow> window_mean w (None # map Some xs) = NaN"
  by (simp add: window_mean_def map_filter_id_None map_filter_id_Some)

lemma nth_rolling_after_gap:
  assumes "i \<le> length ds" and "0 < w"
  shows "rolling_mean w (None # map Some ds) ! i =
     (if w \<le> i then Fin (sum_list (take w (drop (i - w) ds)) / real w) else NaN)"
proof (cases "w \<le> i")
  case True
  define sl where "sl = take w (drop (i - w) ds)"
  from True have "Suc i - w = Suc (i - w)" by simp
  then have "drop (Suc i - w) (take (Suc i) (None # map Some ds)) = drop (i - w) (take i (map Some ds))"
    by simp
  also have "\<dots> = map Some (take (i - (i - w)) (drop (i - w) ds))"
    by (simp add: drop_take take_map drop_map)
  also from True have "i - (i - w) = w" by simp
  finally have win: "drop (Suc i - w) (take (Suc i) (None # map Some ds)) = map Some sl"
    by (simp add: sl_def)
  have len: "length sl = w"
    using True assms by (simp add: sl_def)
  have "rolling_mean w (None # map Some ds) ! i = window_mean w (map Some sl)"
    using assms(1) by (simp only: nth_rolling_mean win length_Cons length_map less_Suc_eq_le)
  with True assms(2) len show ?thesis
    by (simp add: window_mean_Some sl_def)
next
  case False
  then have "Suc i - w = 0" by simp
  then have "drop (Suc i - w) (take (Suc i) (None # map Some ds)) = None # map Some (take i ds)"
    by (simp add: take_map)
  moreover have "length (take i ds) < w" using False by simp
  ultimately have "window_mean w (drop (Suc i - w) (take (Suc i) (None # map Some ds))) = NaN"
    by (simp only: window_mean_None_short)
  with False assms(1) show ?thesis
    by (simp add: nth_rolling_mean)
qed


lemma sum_list_slice_nonneg:
  fixes xs :: "real list"
  assumes "\<And>x. x \<in> set xs \<Longrightarrow> 0 \<le> x"
  shows "0 \<le> sum_list (take n (drop k xs))"
proof (rule sum_list_nonneg)
  fix x assume "x \<in> set (take n (drop k xs))"
  then have "x \<in> set xs" by (meson in_set_dropD in_set_takeD)
  then show "0 \<le> x" by (rule assms)
qed

lemma sum_list_slice_nonpos:
  fixes xs :: "real list"
  assumes "\<And>x. x \<in> set xs \<Longrightarrow> x \<le> 0"
  shows "sum_list (take n (drop k xs)) \<le> 0"
proof (rule sum_list_nonpos)
  fix x assume "x \<in> set (take n (drop k xs))"
  then have "x \<in> set xs" by (meson in_set_dropD in_set_takeD)
  then show "x \<le> 0" by (rule assms)
qed

lemma nth_gain_series:
  assumes "i < length ps"
  shows "gain_series ps ! i =
     (if 14 \<le> i then Fin (sum_list (take 14 (drop (i - 14) (map (max 0) (deltas ps)))) / 14) else NaN)"
proof -
  from assms have ne: "ps \<noteq> []" by auto
  have shape: "clip_lower 0 (diff ps) = None # map Some (map (max 0) (deltas ps))"
    by (simp add: clip_lower_def diff_deltas [OF ne])
  have "i \<le> length (map (max 0) (deltas ps))"
    using assms by (simp add: length_deltas)
  from nth_rolling_after_gap [OF this, of 14] show ?thesis
    by (simp add: gain_series_def shape)
qed

lemma nth_loss_series:
  assumes "i < length ps"
  shows "loss_series ps ! i =
     (if 14 \<le> i then Fin (- (sum_list (take 14 (drop (i - 14) (map (min 0) (deltas ps)))) / 14)) else NaN)"
proof -
  from assms have ne: "ps \<noteq> []" by auto
  have shape: "clip_upper 0 (diff ps) = None # map Some (map (min 0) (deltas ps))"
    by (simp add: clip_upper_def diff_deltas [OF ne])
  have le: "i \<le> length (map (min 0) (deltas ps))"
    using assms by (simp add: length_deltas)
  have "i < length (rolling_mean 14 (clip_upper 0 (diff ps)))"
    using assms by (simp add: length_rolling_mean clip_upper_def length_diff)
  then have "loss_series ps ! i = fneg (rolling_mean 14 (None # map Some (map (min 0) (deltas ps))) ! i)"
    by (simp add: loss_series_def shape)
  with nth_rolling_after_gap [OF le, of 14] show ?thesis
    by simp
qed

lemma length_gain_series: "length (gain_series ps) = length ps"
  by (simp add: gain_series_def length_rolling_mean clip_lower_def length_diff)

lemma length_loss_series: "length (loss_series ps) = length ps"
  by (simp add: loss_series_def length_rolling_mean clip_upper_def length_diff)

lemma length_rsi_series: "length (rsi_series ps) = length ps"
  by (simp add: rsi_series_def rs_series_def length_gain_series length_loss_series)

lemma nth_rsi_series:
  "i < length ps \<Longrightarrow> rsi_series ps ! i = rsi_of_rs (fdiv (gain_series ps ! i) (loss_series ps ! i))"
  by (simp add: rsi_series_def rs_series_def length_gain_series length_loss_series)

lemma gain_loss_defined:
  assumes "i < length ps" and "14 \<le> i"
  shows "\<exists>g l. gain_series ps ! i = Fin g \<and> loss_series ps ! i = Fin l \<and> 0 \<le> g \<and> 0 \<le> l"
proof -
  let ?g = "sum_list (take 14 (drop (i - 14) (map (max 0) (deltas ps)))) / 14"
  let ?l = "- (sum_list (take 14 (drop (i - 14) (map (min 0) (deltas ps)))) / 14)"
  have "0 \<le> sum_list (take 14 (drop (i - 14) (map (max 0) (deltas ps))))"
    by (rule sum_list_slice_nonneg) auto
  then have g: "0 \<le> ?g" by simp
  have "sum_list (take 14 (drop (i - 14) (map (min 0) (deltas ps)))) \<le> 0"
    by (rule sum_list_slice_nonpos) auto
  then have l: "0 \<le> ?l" by simp
  have "gain_series ps ! i = Fin ?g" "loss_series ps ! i = Fin ?l"
    using assms by (simp_all only: nth_gain_series nth_loss_series if_True)
  with g l show ?thesis by blast
qed

lemma rsi_of_quotient:
  assumes "0 \<le> g" and "0 \<le> l"
  shows "rsi_of_rs (fdiv (Fin g) (Fin l)) =
     (if 0 < l then Fin (100 - 100 / (1 + g / l)) else if 0 < g then Fin 100 else NaN)"
proof -
  have "1 + g / l \<noteq> 0" if "0 < l"
  proof -
    from assms that have "0 \<le> g / l" by simp
    then show ?thesis by linarith
  qed
  with assms show ?thesis
    by (auto simp: rsi_of_rs_def fsub_def inf_of_sign_def)
qed

lemma rsi_value_range:
  assumes "0 \<le> g" and "0 < l"
  shows "0 \<le> 100 - 100 / (1 + g / l) \<and> 100 - 100 / (1 + g / l) \<le> (100::real)"
proof -
  from assms have "0 \<le> g / l" by simp
  then have "1 \<le> 1 + g / l" by simp
  then have "100 / (1 + g / l) \<le> 100" "0 \<le> 100 / (1 + g / l)"
    by (simp_all add: divide_le_eq)
  then show ?thesis by simp
qed

lemma assign_columns:
  "SMA20 (assign_indicators df) = Some (sma 20 (price df))"
  "SMA50 (assign_indicators df) = Some (sma 50 (price df))"
  "EMA20 (assign_indicators df) = Some (ewm_mean 20 (price df))"
  "RSI (assign_indicators df) = Some (rsi_series (price df))"
  "price (assign_indicators df) = price df"
  "time (assign_indicators df) = time df"
  by (simp_all add: assign_indicators_def)


section \<open>Column access\<close>

lemma cell_Some: "cell (Some xs) i = iloc xs i"
  by (simp add: cell_def column_def err_bind_def)



section \<open>The simple moving averages\<close>



section \<open>The relative strength index\<close>

text \<open>
  C2, as stated, fails on a flat series: at index 14 of fifteen equal prices the average
  loss of the window is zero, and the RSI is NaN, not 100; the whole column is NaN.
\<close>

theorem rsi_flat_window_counterexample:
  "RSI (assign_indicators (chart (map (\<lambda>t. (int t, 100)) [0 ..< 15]))) = Some (replicate 15 NaN)
   \<and> loss_series (replicate 15 100) ! 14 = Fin 0"
  by code_simp

text \<open>
  C2, as the code has it. For every price series and every index i of it, the RSI column
  has the length of the series and its entry at i is NaN or a number in [0, 100]. Below
  index 14 it is NaN. From index 14 on, the average gain g and the average loss l of the
  window are defined and not negative, and the entry is 100 - 100 / (1 + g / l) when l is
  positive, exactly 100 when l is zero and g is positive, and NaN when both are zero.
\<close>

theorem rsi_column:
  assumes "i < length (price df)"
  shows "\<exists>c. RSI (assign_indicators df) = Some c \<and> length c = length (price df)
     \<and> (c ! i = NaN \<or> (\<exists>r. c ! i = Fin r \<and> 0 \<le> r \<and> r \<le> 100))
     \<and> (i < 14 \<longrightarrow> c ! i = NaN)
     \<and> (14 \<le> i \<longrightarrow> (\<exists>g l. gain_series (price df) ! i = Fin g \<and> loss_series (price df) ! i = Fin l
            \<and> 0 \<le> g \<and> 0 \<le> l
            \<and> c ! i = (if 0 < l then Fin (100 - 100 / (1 + g / l))
                       else if 0 < g then Fin 100 else NaN)))"
proof -
  let ?ps = "price df"
  have col: "RSI (assign_indicators df) = Some (rsi_series ?ps)"
    by (simp add: assign_indicators_def)
  have nth: "rsi_series ?ps ! i = rsi_of_rs (fdiv (gain_series ?ps ! i) (loss_series ?ps ! i))"
    using assms by (rule nth_rsi_series)
  have early: "rsi_series ?ps ! i = NaN" if "i < 14"
    using that assms by (simp add: nth nth_gain_series rsi_of_rs_def fsub_def)
  have late: "\<exists>g l. gain_series ?ps ! i = Fin g \<and> loss_series ?ps ! i = Fin l \<and> 0 \<le> g \<and> 0 \<le> l
      \<and> rsi_series ?ps ! i = (if 0 < l then Fin (100 - 100 / (1 + g / l))
                               else if 0 < g then Fin 100 else NaN)" if "14 \<le> i"
  proof -
    from gain_loss_defined [OF assms that] obtain g l where
      gl: "gain_series ?ps ! i = Fin g" "loss_series ?ps ! i = Fin l" "0 \<le> g" "0 \<le> l"
      by blast
    then have "rsi_series ?ps ! i = (if 0 < l then Fin (100 - 100 / (1 + g / l))
                               else if 0 < g then Fin 100 else NaN)"
      by (simp only: nth rsi_of_quotient)
    with gl show ?thesis by blast
  qed
  have range: "rsi_series ?ps ! i = NaN \<or> (\<exists>r. rsi_series ?ps ! i = Fin r \<and> 0 \<le> r \<and> r \<le> 100)"
  proof (cases "14 \<le> i")
    case True
    from late [OF True] obtain g l where
      gl: "0 \<le> g" "0 \<le> l"
      and v: "rsi_series ?ps ! i = (if 0 < l then Fin (100 - 100 / (1 + g / l))
                               else if 0 < g then Fin 100 else NaN)"
      by blast
    show ?thesis
    proof (cases "0 < l")
      case True
      with v rsi_value_range [OF gl(1) True] show ?thesis by simp
    next
      case False
      with v show ?thesis by simp
    qed
  next
    case False
    then show ?thesis using early by simp
  qed
  from col early late range show ?thesis
    by (simp add: length_rsi_series)
qed

theorem rsi_column_witness:
  "\<exists>c. RSI (assign_indicators (chart (map (\<lambda>t. (int t, real t)) [0 ..< 15]))) = Some c
     \<and> length c = 15 \<and> c ! 14 = Fin 100"
proof -
  let ?df = "chart (map (\<lambda>t. (int t, real t)) [0 ..< 15])"
  have p: "price ?df = map real [0 ..< 15]"
    by (simp add: chart_def comp_def)
  have g: "gain_series (map real [0 ..< 15]) ! 14 = Fin 1"
    by code_simp
  have l: "loss_series (map real [0 ..< 15]) ! 14 = Fin 0"
    by code_simp
  have "14 < length (price ?df)"
    by (simp add: p)
  from rsi_column [OF this] g l show ?thesis
    unfolding p by auto
qed

text \<open>
  The sign of a zero divisor decides only the sign of an infinite \<^verbatim>\<open>rs\<close>, and both
  infinities give the same RSI.
\<close>

lemma rsi_of_infinite_rs: "rsi_of_rs PInf = Fin 100" "rsi_of_rs NInf = Fin 100"
  by (simp_all add: rsi_of_rs_def fsub_def)

section \<open>The score of the signal engine\<close>

lemma ai_signal_cells:
  assumes "cell (SMA20 df) (- 1) = Inr s20" and "cell (SMA50 df) (- 1) = Inr s50"
    and "iloc (price df) (- 1) = Inr p" and "cell (EMA20 df) (- 1) = Inr e"
    and "cell (RSI df) (- 1) = Inr r"
  shows "ai_signal df =
     Inr (classify ((if fgt s20 s50 then 1 else 0) + (if fgt (Fin p) e then 1 else 0)
                    + (if flt r (Fin 30) then 1 else 0) - (if fgt r (Fin 70) then 1 else 0)))"
  using assms by (simp add: ai_signal_def err_bind_def Let_def)

text \<open>
  C7. When the last row of the frame holds numbers for SMA20, SMA50, EMA20 and RSI, the
  signal engine returns a signal and a score; the score is the sum of +1 if
  SMA20 > SMA50, +1 if price > EMA20, +1 if RSI < 30 and -1 if RSI > 70; the signal is BUY
  exactly when the score is at least 2, SELL exactly when it is at most -1, and HOLD
  exactly when it is in between.
\<close>

theorem ai_signal_score:
  assumes "cell (SMA20 df) (- 1) = Inr (Fin s20)" and "cell (SMA50 df) (- 1) = Inr (Fin s50)"
    and "iloc (price df) (- 1) = Inr p" and "cell (EMA20 df) (- 1) = Inr (Fin e)"
    and "cell (RSI df) (- 1) = Inr (Fin r)"
  shows "\<exists>signal score. ai_signal df = Inr (signal, score)
     \<and> score = (if s50 < s20 then 1 else 0) + (if e < p then 1 else 0)
                + (if r < 30 then 1 else 0) - (if 70 < r then 1 else 0)
     \<and> (signal = ''BUY'' \<longleftrightarrow> 2 \<le> score)
     \<and> (signal = ''SELL'' \<longleftrightarrow> score \<le> - 1)
     \<and> (signal = ''HOLD'' \<longleftrightarrow> - 1 < score \<and> score < 2)"
  unfolding ai_signal_cells [OF assms]
  by (simp add: classify_def fgt_def)

theorem ai_signal_score_witness:
  "ai_signal \<lparr>time = [0], price = [106], SMA20 = Some [Fin 105], SMA50 = Some [Fin 100],
       EMA20 = Some [Fin 104], RSI = Some [Fin 50]\<rparr> = Inr (''BUY'', 2)"
  using ai_signal_score [of "\<lparr>time = [0], price = [106], SMA20 = Some [Fin 105],
       SMA50 = Some [Fin 100], EMA20 = Some [Fin 104], RSI = Some [Fin 50]\<rparr>" 105 100 106 104 50]
  by (auto simp add: cell_Some iloc_def)

text \<open>
  C1, as stated, fails: on a series of one price the last SMA20, SMA50 and RSI are NaN,
  and the signal engine returns HOLD with score 0 as for any other frame.
\<close>

theorem ai_signal_nan_counterexample:
  "cell (SMA20 (assign_indicators (chart [(0, 100)]))) (- 1) = Inr NaN
   \<and> cell (SMA50 (assign_indicators (chart [(0, 100)]))) (- 1) = Inr NaN
   \<and> cell (RSI (assign_indicators (chart [(0, 100)]))) (- 1) = Inr NaN
   \<and> ai_signal (assign_indicators (chart [(0, 100)])) = Inr (''HOLD'', 0)"
  by code_simp

text \<open>
  C1, as the code has it. When the last row exists and one of SMA20, SMA50, EMA20 and RSI
  is NaN there, the signal engine raises nothing and returns the classification of a
  score to which every comparison against a NaN adds nothing.
\<close>

theorem ai_signal_undefined_inputs:
  assumes "cell (SMA20 df) (- 1) = Inr s20" and "cell (SMA50 df) (- 1) = Inr s50"
    and "iloc (price df) (- 1) = Inr p" and "cell (EMA20 df) (- 1) = Inr e"
    and "cell (RSI df) (- 1) = Inr r"
    and "s20 = NaN \<or> s50 = NaN \<or> e = NaN \<or> r = NaN"
  shows "ai_signal df =
     Inr (classify ((if s20 \<noteq> NaN \<and> s50 \<noteq> NaN \<and> fgt s20 s50 then 1 else 0)
                    + (if e \<noteq> NaN \<and> fgt (Fin p) e then 1 else 0)
                    + (if r \<noteq> NaN \<and> flt r (Fin 30) then 1 else 0)
                    - (if r \<noteq> NaN \<and> fgt r (Fin 70) then 1 else 0)))"
proof -
  have "fgt s20 s50 \<longleftrightarrow> s20 \<noteq> NaN \<and> s50 \<noteq> NaN \<and> fgt s20 s50"
    by (cases s20; cases s50) (simp_all add: fgt_def)
  moreover have "fgt (Fin p) e \<longleftrightarrow> e \<noteq> NaN \<and> fgt (Fin p) e"
    by (cases e) (simp_all add: fgt_def)
  moreover have "flt r (Fin 30) \<longleftrightarrow> r \<noteq> NaN \<and> flt r (Fin 30)"
    by (cases r) simp_all
  moreover have "fgt r (Fin 70) \<longleftrightarrow> r \<noteq> NaN \<and> fgt r (Fin 70)"
    by (cases r) (simp_all add: fgt_def)
  ultimately show ?thesis
    unfolding ai_signal_cells [OF assms(1-5)] by presburger
qed

theorem ai_signal_undefined_inputs_witness:
  "ai_signal (assign_indicators (chart [(0, 100), (1, 110)])) = Inr (''HOLD'', 1)"
proof -
  let ?df = "assign_indicators (chart [(0, 100), (1, 110)])"
  have c: "cell (SMA20 ?df) (- 1) = Inr NaN" "cell (SMA50 ?df) (- 1) = Inr NaN"
    "iloc (price ?df) (- 1) = Inr 110" "cell (EMA20 ?df) (- 1) = Inr (Fin (421 / 4))"
    "cell (RSI ?df) (- 1) = Inr NaN"
    by code_simp+
  from ai_signal_undefined_inputs [OF c] show ?thesis
    by (simp add: classify_def fgt_def)
qed

section \<open>The risk calculator at entry = stop-loss\<close>

text \<open>
  C3. With entry, stop-loss and take-profit all positive and the entry equal to the
  stop-loss, the claim asks for a reported undefined ratio. The calculator raises
  ZeroDivisionError instead: at entry 100, stop-loss 100 and take-profit 130.
\<close>

theorem risk_reward_entry_eq_stop: "risk_reward 100 100 130 = Inl ZeroDivisionError"
  by (simp add: risk_reward_def)

section \<open>The trade log\<close>

text \<open>
  C9. Saving a trade on a log that holds the trades ts, with no fault of the disk, leaves a
  log whose load is ts followed by that trade; on an absent file it leaves the log of that
  one trade; and loading an absent file gives the empty list.
\<close>

theorem trade_log_round_trip:
  "trade_speichern NoFault t (Dump ts) = (None, Dump (ts @ [t]))
   \<and> load_trades (snd (trade_speichern NoFault t (Dump ts))) = Inr (ts @ [t])
   \<and> load_trades (snd (trade_speichern NoFault t NoFile)) = Inr [t]
   \<and> load_trades NoFile = Inr []"
  by (simp add: trade_speichern_def load_trades_def save_trades_def)

text \<open>
  C5, as stated, fails: a save whose write fails after the file has been opened leaves a
  torn file in place of the log that was stored.
\<close>

theorem save_trades_torn_counterexample:
  "fst (save_trades WriteFails
          [\<lparr>trade_coin = ''Bitcoin'', trade_type = ''BUY'', trade_amount = 1, trade_price = 100\<rparr>,
           \<lparr>trade_coin = ''Bitcoin'', trade_type = ''SELL'', trade_amount = 1, trade_price = 110\<rparr>]
          (Dump [\<lparr>trade_coin = ''Bitcoin'', trade_type = ''BUY'', trade_amount = 1, trade_price = 100\<rparr>]))
     = Some OSError
   \<and> snd (save_trades WriteFails
          [\<lparr>trade_coin = ''Bitcoin'', trade_type = ''BUY'', trade_amount = 1, trade_price = 100\<rparr>,
           \<lparr>trade_coin = ''Bitcoin'', trade_type = ''SELL'', trade_amount = 1, trade_price = 110\<rparr>]
          (Dump [\<lparr>trade_coin = ''Bitcoin'', trade_type = ''BUY'', trade_amount = 1, trade_price = 100\<rparr>]))
     \<noteq> Dump [\<lparr>trade_coin = ''Bitcoin'', trade_type = ''BUY'', trade_amount = 1, trade_price = 100\<rparr>]"
  by (simp add: save_trades_def)

text \<open>
  C5, as the code has it. A save with no fault stores the whole new log. A save that fails
  to open the file raises and leaves the file as it was. A save whose write fails after
  the file has been opened raises and leaves the file torn, whatever it held before, and
  a torn file does not load.
\<close>

theorem save_trades_outcomes:
  "save_trades NoFault trades f = (None, Dump trades)
   \<and> save_trades OpenFails trades f = (Some OSError, f)
   \<and> save_trades WriteFails trades f = (Some OSError, Torn)
   \<and> load_trades Torn = Inl JSONDecodeError"
  by (simp add: save_trades_def load_trades_def)

section \<open>The backtest without a golden cross\<close>







section \<open>The invariant of the backtest\<close>









section \<open>The frame of the caller\<close>

text \<open>
  C4, as stated, fails: after the call the frame the caller passed holds the indicator
  columns, which it did not hold before.
\<close>

theorem add_indicators_mutates_counterexample:
  "snd (add_indicators 0 (\<lambda>r. chart [(0, 100)])) 0 \<noteq> chart [(0, 100)]"
proof
  assume "snd (add_indicators 0 (\<lambda>r. chart [(0, 100)])) 0 = chart [(0, 100)]"
  then have "SMA20 (snd (add_indicators 0 (\<lambda>r. chart [(0, 100)])) 0) = SMA20 (chart [(0, 100)])"
    by simp
  then show False
    by (simp add: add_indicators_def assign_columns chart_def)
qed

lemma assign_indicators_idem: "assign_indicators (assign_indicators df) = assign_indicators df"
  by (simp add: assign_indicators_def)

text \<open>
  C4, as the code has it. The call returns the reference it was given. In the frame behind
  it the time and price columns are as before, and the four indicator columns are set to
  values computed from the price column alone. No other frame of the store is changed,
  and a second call changes nothing more.
\<close>

theorem add_indicators_frame:
  "fst (add_indicators r s) = r
   \<and> time (snd (add_indicators r s) r) = time (s r)
   \<and> price (snd (add_indicators r s) r) = price (s r)
   \<and> SMA20 (snd (add_indicators r s) r) = Some (sma 20 (price (s r)))
   \<and> SMA50 (snd (add_indicators r s) r) = Some (sma 50 (price (s r)))
   \<and> EMA20 (snd (add_indicators r s) r) = Some (ewm_mean 20 (price (s r)))
   \<and> RSI (snd (add_indicators r s) r) = Some (rsi_series (price (s r)))
   \<and> (\<forall>r'. r' \<noteq> r \<longrightarrow> snd (add_indicators r s) r' = s r')
   \<and> add_indicators r (snd (add_indicators r s)) = add_indicators r s"
  by (simp add: add_indicators_def assign_columns assign_indicators_idem)

theorem add_indicators_frame_witness:
  "fst (add_indicators 0 ((\<lambda>r. chart [(0, 100)])(1 := chart [(0, 5)]))) = 0
   \<and> price (snd (add_indicators 0 ((\<lambda>r. chart [(0, 100)])(1 := chart [(0, 5)]))) 0) = [100]
   \<and> SMA20 (snd (add_indicators 0 ((\<lambda>r. chart [(0, 100)])(1 := chart [(0, 5)]))) 0) = Some [NaN]
   \<and> snd (add_indicators 0 ((\<lambda>r. chart [(0, 100)])(1 := chart [(0, 5)]))) 1 = chart [(0, 5)]"
proof -
  have "sma 20 [100] = [NaN]"
    by code_simp
  with add_indicators_frame [of 0 "(\<lambda>r. chart [(0, 100)])(1 := chart [(0, 5)])"]
  show ?thesis
    by (simp add: chart_def)
qed

end
